theory Spec2Isabelle
  imports Main "HOL-Library.Word"
begin

section \<open>Strings of the host language\<close>

text \<open>
  A string of the server is a sequence of UTF-16 code units: \<open>length\<close>, \<open>slice\<close>,
  \<open>trim\<close> and the regular expression class \<open>\s\<close> all work on code units. The
  title templates of \<open>deriveTitle\<close> contain characters outside ASCII, so strings are
  lists of 16-bit words; \<open>ascii\<close> embeds an ASCII literal.
\<close>

type_synonym jschar = "16 word"
type_synonym jsstring = "jschar list"
type_synonym bytes = "8 word list"

definition ascii :: "string \<Rightarrow> jsstring" where
  "ascii s = map of_char s"

text \<open>
  White space as \<open>String.prototype.trim\<close> and \<open>\s\<close> define it (the two sets are the
  same): TAB, LF, VT, FF, CR, SPACE, NBSP, U+1680, U+2000 to U+200A, LS, PS, U+202F,
  U+205F, U+3000 and the byte order mark.
\<close>

definition is_space :: "jschar \<Rightarrow> bool" where
  "is_space c \<longleftrightarrow>
     c = 0x09 \<or> c = 0x0A \<or> c = 0x0B \<or> c = 0x0C \<or> c = 0x0D \<or> c = 0x20 \<or>
     c = 0xA0 \<or> c = 0x1680 \<or> (0x2000 \<le> c \<and> c \<le> 0x200A) \<or>
     c = 0x2028 \<or> c = 0x2029 \<or> c = 0x202F \<or> c = 0x205F \<or> c = 0x3000 \<or>
     c = 0xFEFF"

text \<open>\<open>s.trim()\<close>: white space removed at both ends.\<close>

definition trim :: "jsstring \<Rightarrow> jsstring" where
  "trim s = rev (dropWhile is_space (rev (dropWhile is_space s)))"

text \<open>
  \<open>s.replace(/\s+/g, ' ')\<close>: every maximal run of white space becomes one SPACE.
\<close>

function collapse_spaces :: "jsstring \<Rightarrow> jsstring" where
  "collapse_spaces [] = []"
| "collapse_spaces (c # cs) =
     (if is_space c then 0x20 # collapse_spaces (dropWhile is_space cs)
      else c # collapse_spaces cs)"
  by pat_completeness auto
termination
  by (relation "measure length") (auto simp: length_dropWhile_le less_Suc_eq_le)

text \<open>The decimal digits of a number, as template literals print it.\<close>

fun show_nat :: "nat \<Rightarrow> jsstring" where
  "show_nat n =
     (if n < 10 then [0x30 + of_nat n]
      else show_nat (n div 10) @ [0x30 + of_nat (n mod 10)])"

declare show_nat.simps [simp del]

section \<open>Title derivation\<close>

text \<open>
  \<^verbatim>\<open>
  function deriveTitle(text?: string, imageCount: number = 0) {
    const maxLen = 30;
    if (text && text.trim().length > 0) {
      const oneLine = text.replace(/\s+/g, ' ').trim();
      return oneLine.length > maxLen ? oneLine.slice(0, maxLen) + '...' : oneLine;
    }
    if (imageCount > 0) return `<images label>(${imageCount}<unit>)`;
    return `<session label> ${new Date().toLocaleString()}`;
  }
  \<close>
  The marker appended on truncation is the single code unit U+2026. The two labels
  are written in Chinese in the source; they are given here by their code units. The
  clock reading \<open>new Date().toLocaleString()\<close> is a parameter.
\<close>

definition ellipsis :: jsstring where
  "ellipsis = [0x2026]"

definition images_label :: "nat \<Rightarrow> jsstring" where
  "images_label n =
     [0x56FE, 0x7247, 0x5BF9, 0x8BDD, 0xFF08] @ show_nat n @ [0x5F20, 0xFF09]"

definition session_label :: "jsstring \<Rightarrow> jsstring" where
  "session_label now = [0x4F1A, 0x8BDD, 0x20] @ now"

definition deriveTitle :: "jsstring \<Rightarrow> jsstring option \<Rightarrow> nat \<Rightarrow> jsstring" where
  "deriveTitle now text imageCount =
     (let maxLen = 30 in
      case text of
        Some t \<Rightarrow>
          if t \<noteq> [] \<and> length (trim t) > 0 then
            (let oneLine = trim (collapse_spaces t) in
             if length oneLine > maxLen then take maxLen oneLine @ ellipsis else oneLine)
          else if imageCount > 0 then images_label imageCount
          else session_label now
      | None \<Rightarrow>
          if imageCount > 0 then images_label imageCount else session_label now)"

section \<open>Data model\<close>

text \<open>
  \<^verbatim>\<open>
  interface ChatMessage { role: 'user' | 'model'; parts: any[] }
  interface ChatSession { id: string; history: ChatMessage[]; generating: boolean; turn: number }
  interface ChatSessionFile { id; title; createdAt; updatedAt; history }
  \<close>
  The parts the server itself builds are \<open>{ text }\<close> and
  \<open>{ inlineData: { mimeType, data } }\<close>.
\<close>

datatype role = User | Model

datatype part = Text jsstring | InlineData jsstring jsstring

record chat_message =
  role :: role
  parts :: "part list"

record chat_session =
  sess_id :: jsstring
  history :: "chat_message list"
  generating :: bool
  turn :: nat

record chat_session_file =
  file_id :: jsstring
  title :: jsstring
  createdAt :: jsstring
  updatedAt :: jsstring
  file_history :: "chat_message list"

text \<open>
  The registry \<open>sessions\<close> is a \<open>Map\<close> from session id to a session object. A
  handler keeps the object it looked up across its suspension points, and the load
  endpoint puts a new object under an id already present, so objects live in a store
  of their own (\<open>heap\<close>, allocated at \<open>next_ref\<close>) and the registry holds
  references. \<open>store\<close> is the directory of session documents (one per id),
  \<open>artifacts\<close> the artifact directory (one blob per file name).
\<close>

record world =
  sessions :: "jsstring \<rightharpoonup> nat"
  heap :: "nat \<Rightarrow> chat_session"
  next_ref :: nat
  store :: "jsstring \<rightharpoonup> chat_session_file"
  artifacts :: "jsstring \<rightharpoonup> bytes"

section \<open>What the server reads from outside\<close>

text \<open>
  One part of an upstream chunk, as the relay inspects it: \<open>p?.inlineData?.data\<close>,
  \<open>p.inlineData.mimeType\<close> and \<open>p?.text\<close>, each of which may be missing. A chunk
  is \<open>chunk?.candidates?.[0]?.content?.parts\<close>, missing or a list of parts. The lazy
  sequence yields chunks and may raise; an error is read through \<open>err?.message\<close>.
\<close>

record raw_inline =
  raw_mimeType :: "jsstring option"
  raw_data :: "jsstring option"

record raw_part =
  raw_inlineData :: "raw_inline option"
  raw_text :: "jsstring option"

datatype item = Chunk "raw_part list option" | Raise "jsstring option"

datatype upstream = Rejects "jsstring option" | Yields "item list"

datatype modality = IMAGE | TEXT

record gen_request =
  req_model :: jsstring
  req_modalities :: "modality list"
  req_contents :: "chat_message list"

datatype path = SessPath jsstring | ArtifactPath jsstring

text \<open>
  The environment of one handler run: the two process variables, the \<open>mime\<close>
  package's \<open>getExtension\<close>, the remote generation call, the clock in its two
  formats, the base64 codec of \<open>Buffer\<close>, the paths at which \<open>writeFile\<close>
  (with the \<open>mkdir\<close> before it) raises, and the paths at which \<open>unlink\<close> raises
  although the file is there (no permission, file busy). Reading a document raises
  exactly when there is none; \<open>unlink\<close> raises then too.
\<close>

record env =
  GEMINI_API_KEY :: "jsstring option"
  GENAI_MODEL :: "jsstring option"
  getExtension :: "jsstring \<Rightarrow> jsstring option"
  generateContentStream :: "gen_request \<Rightarrow> upstream"
  toLocaleString :: jsstring
  toISOString :: jsstring
  toBase64 :: "bytes \<Rightarrow> jsstring"
  fromBase64 :: "jsstring \<Rightarrow> bytes"
  write_raises :: "path \<Rightarrow> bool"
  unlink_raises :: "path \<Rightarrow> bool"

datatype io_error = ENOENT | EIO | EACCES

section \<open>Artifact store and session repository\<close>

text \<open>\<open>a || b\<close> on strings: the empty string is falsy.\<close>

definition or_else :: "jsstring \<Rightarrow> jsstring \<Rightarrow> jsstring" where
  "or_else a b = (if a \<noteq> [] then a else b)"

definition truthy :: "jsstring option \<Rightarrow> bool" where
  "truthy s = (case s of None \<Rightarrow> False | Some x \<Rightarrow> x \<noteq> [])"

definition extFromMime :: "env \<Rightarrow> jsstring \<Rightarrow> jsstring" where
  "extFromMime e mimeType =
     (case getExtension e (or_else mimeType []) of
        None \<Rightarrow> ascii ''png''
      | Some x \<Rightarrow> or_else x (ascii ''png''))"

definition saveBufferToArtifacts :: "env \<Rightarrow> jsstring \<Rightarrow> bytes \<Rightarrow> world \<Rightarrow> io_error + world" where
  "saveBufferToArtifacts e fileName buffer w =
     (if write_raises e (ArtifactPath fileName) then Inl EIO
      else Inr (w\<lparr>artifacts := (artifacts w)(fileName \<mapsto> buffer)\<rparr>))"

definition createSessionFile :: "env \<Rightarrow> jsstring \<Rightarrow> jsstring \<Rightarrow> world \<Rightarrow> io_error + world" where
  "createSessionFile e i t w =
     (let now = toISOString e;
          file = \<lparr>file_id = i, title = t, createdAt = now, updatedAt = now, file_history = []\<rparr>
      in if write_raises e (SessPath i) then Inl EIO
         else Inr (w\<lparr>store := (store w)(i \<mapsto> file)\<rparr>))"

definition loadSessionFile :: "jsstring \<Rightarrow> world \<Rightarrow> io_error + chat_session_file" where
  "loadSessionFile i w = (case store w i of None \<Rightarrow> Inl ENOENT | Some f \<Rightarrow> Inr f)"

definition saveSessionFile :: "env \<Rightarrow> chat_session_file \<Rightarrow> world \<Rightarrow> io_error + world" where
  "saveSessionFile e file w =
     (let file' = file\<lparr>updatedAt := toISOString e\<rparr>
      in if write_raises e (SessPath (file_id file')) then Inl EIO
         else Inr (w\<lparr>store := (store w)(file_id file' \<mapsto> file')\<rparr>))"

definition renameSessionFile :: "env \<Rightarrow> jsstring \<Rightarrow> jsstring \<Rightarrow> world \<Rightarrow> io_error + world" where
  "renameSessionFile e i t w =
     (case loadSessionFile i w of
        Inl err \<Rightarrow> Inl err
      | Inr file \<Rightarrow> saveSessionFile e (file\<lparr>title := t\<rparr>) w)"

text \<open>
  \<open>unlink(sessPath(id))\<close> raises when there is no document and when the environment
  refuses the removal; otherwise the document is gone.
\<close>

definition unlink :: "env \<Rightarrow> jsstring \<Rightarrow> world \<Rightarrow> io_error + world" where
  "unlink e i w =
     (case store w i of
        None \<Rightarrow> Inl ENOENT
      | Some _ \<Rightarrow>
          if unlink_raises e (SessPath i) then Inl EACCES
          else Inr (w\<lparr>store := (store w)(i := None)\<rparr>))"

text \<open>\<open>try { await unlink(sessPath(id)); } catch { /* ignore */ }\<close>: every error is ignored.\<close>

definition deleteSessionFile :: "env \<Rightarrow> jsstring \<Rightarrow> world \<Rightarrow> world" where
  "deleteSessionFile e i w = (case unlink e i w of Inl _ \<Rightarrow> w | Inr w' \<Rightarrow> w')"

section \<open>Session endpoints\<close>

datatype http_error =
    BadRequest jsstring     \<comment> \<open>status 400\<close>
  | NotFound jsstring       \<comment> \<open>status 404\<close>
  | Conflict jsstring       \<comment> \<open>status 409\<close>
  | ServerError jsstring    \<comment> \<open>status 500\<close>
  | NoResponse              \<comment> \<open>the handler's promise rejected before it answered\<close>

text \<open>
  \<open>POST /session\<close>; \<open>i\<close> is the id \<open>nanoid(10)\<close> returns. The registry entry is
  made before the document is written.
\<close>

definition create_session :: "env \<Rightarrow> jsstring \<Rightarrow> world \<Rightarrow> (http_error + jsstring \<times> jsstring) \<times> world" where
  "create_session e i w =
     (let t = session_label (toLocaleString e);
          r = next_ref w;
          w1 = w\<lparr>sessions := (sessions w)(i \<mapsto> r),
                 heap := (heap w)(r := \<lparr>sess_id = i, history = [], generating = False, turn = 0\<rparr>),
                 next_ref := Suc r\<rparr>
      in case createSessionFile e i t w1 of
           Inl _ \<Rightarrow> (Inl NoResponse, w1)
         | Inr w2 \<Rightarrow> (Inr (i, t), w2))"

text \<open>\<open>GET /session/:id\<close>: load the document and warm it into the registry.\<close>

definition load_session :: "jsstring \<Rightarrow> world \<Rightarrow> (http_error + chat_session_file) \<times> world" where
  "load_session i w =
     (case loadSessionFile i w of
        Inl _ \<Rightarrow> (Inl (NotFound (ascii ''Not found'')), w)
      | Inr file \<Rightarrow>
          (let r = next_ref w
           in (Inr file,
               w\<lparr>sessions := (sessions w)(i \<mapsto> r),
                 heap := (heap w)(r := \<lparr>sess_id = file_id file, history = file_history file,
                   generating = False,
                   turn = length (filter (\<lambda>m. role m = Model) (file_history file))\<rparr>),
                 next_ref := Suc r\<rparr>)))"

text \<open>\<open>DELETE /session/:id\<close>; the answer is always \<open>{ ok: true }\<close>.\<close>

definition delete_session :: "env \<Rightarrow> jsstring \<Rightarrow> world \<Rightarrow> (http_error + bool) \<times> world" where
  "delete_session e i w =
     (let w1 = deleteSessionFile e i w;
          w2 = w1\<lparr>sessions := (sessions w1)(i := None)\<rparr>
      in (Inr True, w2))"

section \<open>Accepting a user message\<close>

text \<open>
  \<open>POST /message\<close>. The request as the multipart parser delivers it: the two body
  fields, each possibly missing, and the uploaded files.
\<close>

record upload =
  mimetype :: jsstring
  buffer :: bytes

record message_request =
  body_sessionId :: "jsstring option"
  body_text :: "jsstring option"
  files :: "upload list"

definition user_file_name :: "jsstring \<Rightarrow> nat \<Rightarrow> nat \<Rightarrow> jsstring \<Rightarrow> jsstring" where
  "user_file_name sessionId t idx ext =
     ascii ''session-'' @ sessionId @ ascii ''-user-'' @ show_nat t @ ascii ''-'' @
     show_nat idx @ ascii ''.'' @ ext"

text \<open>
  The loop over the files. A write that raises leaves the loop (and the handler, through
  its \<open>catch\<close>); the blobs written before it stay. The parser delivers file objects
  only, so the \<open>if (!f) continue\<close> of the loop never fires and has no branch here.
\<close>

fun save_uploads ::
  "env \<Rightarrow> jsstring \<Rightarrow> nat \<Rightarrow> nat \<Rightarrow> upload list \<Rightarrow> world \<Rightarrow> (io_error + part list) \<times> world" where
  "save_uploads e sessionId t idx [] w = (Inr [], w)"
| "save_uploads e sessionId t idx (f # fs) w =
     (let mimeType = or_else (mimetype f) (ascii ''image/png'');
          base64 = toBase64 e (buffer f);
          ext = extFromMime e mimeType;
          fileName = user_file_name sessionId t idx ext
      in case saveBufferToArtifacts e fileName (buffer f) w of
           Inl err \<Rightarrow> (Inl err, w)
         | Inr w1 \<Rightarrow>
             (case save_uploads e sessionId t (Suc idx) fs w1 of
                (Inl err, w2) \<Rightarrow> (Inl err, w2)
              | (Inr ps, w2) \<Rightarrow> (Inr (InlineData mimeType base64 # ps), w2)))"

definition autoname :: "env \<Rightarrow> jsstring \<Rightarrow> jsstring option \<Rightarrow> nat \<Rightarrow> world \<Rightarrow> world" where
  "autoname e sessionId text n w =
     (case renameSessionFile e sessionId (deriveTitle (toLocaleString e) text n) w of
        Inl _ \<Rightarrow> w
      | Inr w' \<Rightarrow> w')"

text \<open>\<open>(req.body?.sessionId as string) || ''\<close>\<close>

definition request_id :: "message_request \<Rightarrow> jsstring" where
  "request_id req = (case body_sessionId req of None \<Rightarrow> [] | Some s \<Rightarrow> or_else s [])"

definition acceptMessage ::
  "env \<Rightarrow> message_request \<Rightarrow> world \<Rightarrow> (http_error + jsstring \<times> nat) \<times> world" where
  "acceptMessage e req w =
     (let sessionId = request_id req;
          text = map_option trim (body_text req)
      in case sessions w sessionId of
           None \<Rightarrow> (Inl (BadRequest (ascii ''Invalid sessionId'')), w)
         | Some r \<Rightarrow>
             if generating (heap w r)
             then (Inl (Conflict (ascii ''Generation in progress, please wait'')), w)
             else
               (let textParts = (case text of
                                   None \<Rightarrow> []
                                 | Some t \<Rightarrow> if t \<noteq> [] then [Text t] else [])
                in case save_uploads e sessionId (turn (heap w r) + 1) 0 (files req) w of
                     (Inl _, w1) \<Rightarrow> (Inl (ServerError (ascii ''Failed to accept message'')), w1)
                   | (Inr imageParts, w1) \<Rightarrow>
                       (let ps = textParts @ imageParts
                        in if length ps = 0
                           then (Inl (BadRequest (ascii ''Empty message'')), w1)
                           else
                             (let sess = heap w1 r;
                                  w2 = w1\<lparr>heap := (heap w1)
                                         (r := sess\<lparr>history := history sess @ [\<lparr>role = User, parts = ps\<rparr>]\<rparr>)\<rparr>;
                                  w3 = (if turn (heap w2 r) = 0
                                        then autoname e sessionId text (length (files req)) w2
                                        else w2)
                              in (Inr (sessionId, turn (heap w3 r) + 1), w3)))))"

section \<open>Streaming a turn\<close>

text \<open>
  The relay channel: the events written with \<open>sseSend\<close> in order, whether
  \<open>res.end()\<close> has run, whether the keep-alive interval is armed, and whether the
  client is still there. No statement of the handler reads the last field: it
  registers no listener for the request or the response closing. The pings the
  interval writes are comment lines, not events, and are left out, as are the calls of
  \<open>logEvent\<close>, which are not awaited and swallow their own errors.
\<close>

datatype event =
    Status jsstring
  | TextDelta jsstring
  | ImageEvent jsstring jsstring
  | Error jsstring
  | Done

record channel =
  written :: "event list"
  ended :: bool
  ping_timer :: bool
  client_connected :: bool

definition sseInit :: channel where
  "sseInit = \<lparr>written = [], ended = False, ping_timer = False, client_connected = True\<rparr>"

definition sseSend :: "event \<Rightarrow> channel \<Rightarrow> channel" where
  "sseSend ev res = res\<lparr>written := written res @ [ev]\<rparr>"

definition setInterval :: "channel \<Rightarrow> channel" where
  "setInterval res = res\<lparr>ping_timer := True\<rparr>"

definition clearInterval :: "channel \<Rightarrow> channel" where
  "clearInterval res = res\<lparr>ping_timer := False\<rparr>"

definition res_end :: "channel \<Rightarrow> channel" where
  "res_end res = res\<lparr>ended := True\<rparr>"

text \<open>The locals of a handler that is suspended inside its \<open>try\<close> block.\<close>

record task =
  t_sessionId :: jsstring
  t_sess :: nat
  t_res :: channel
  t_assistantParts :: "part list"
  t_genIndex :: nat

datatype stream =
    is_Closed: Closed (closed_res: channel)
  | is_InFlight: InFlight (flight_task: task) (flight_pending: "item list")

text \<open>\<open>finally { sess.generating = false; clearInterval(ping); res.end(); }\<close>\<close>

definition stream_finally :: "nat \<Rightarrow> channel \<Rightarrow> world \<Rightarrow> channel \<times> world" where
  "stream_finally r res w =
     (res_end (clearInterval res),
      w\<lparr>heap := (heap w)(r := (heap w r)\<lparr>generating := False\<rparr>)\<rparr>)"

definition has_inline_data :: "part \<Rightarrow> bool" where
  "has_inline_data p = (case p of InlineData _ d \<Rightarrow> d \<noteq> [] | Text _ \<Rightarrow> False)"

definition stream_request :: "env \<Rightarrow> chat_session \<Rightarrow> gen_request" where
  "stream_request e sess =
     (let model = (case GENAI_MODEL e of
                     None \<Rightarrow> ascii ''gemini-2.5-flash-image-preview''
                   | Some m \<Rightarrow> or_else m (ascii ''gemini-2.5-flash-image-preview''));
          lastUser = find (\<lambda>m. role m = User) (rev (history sess));
          hasImages = (case lastUser of None \<Rightarrow> False | Some m \<Rightarrow> list_ex has_inline_data (parts m))
      in \<lparr>req_model = model,
          req_modalities = (if hasImages then [IMAGE, TEXT] else [TEXT]),
          req_contents = history sess\<rparr>)"

text \<open>
  The handler up to its first suspension point, the \<open>await\<close> of the generation call.
  A call that rejects reaches the same \<open>catch\<close> as a sequence that raises on its
  first pull, and is handed on as such.
\<close>

definition stream_open :: "env \<Rightarrow> jsstring \<Rightarrow> world \<Rightarrow> stream \<times> world" where
  "stream_open e sessionId w =
     (let res = sseInit
      in case sessions w sessionId of
           None \<Rightarrow> (Closed (res_end (sseSend (Error (ascii ''Invalid sessionId'')) res)), w)
         | Some r \<Rightarrow>
             if generating (heap w r)
             then (Closed (res_end (sseSend (Error (ascii ''Already generating'')) res)), w)
             else
               (let res1 = setInterval res
                in if \<not> truthy (GEMINI_API_KEY e)
                   then
                     (let res2 = res_end (clearInterval
                                   (sseSend (Error (ascii ''GEMINI_API_KEY is not set'')) res1))
                      in case stream_finally r res2 w of (res3, w') \<Rightarrow> (Closed res3, w'))
                   else
                     (let sess = heap w r;
                          request = stream_request e sess;
                          w1 = w\<lparr>heap := (heap w)(r := sess\<lparr>generating := True\<rparr>)\<rparr>;
                          res2 = sseSend (Status (ascii ''Generating...'')) res1;
                          t = \<lparr>t_sessionId = sessionId, t_sess = r, t_res = res2,
                               t_assistantParts = [], t_genIndex = 0\<rparr>
                      in (InFlight t
                            (case generateContentStream e request of
                               Rejects err \<Rightarrow> [Raise err]
                             | Yields xs \<Rightarrow> xs),
                          w1))))"

text \<open>
  One part of a chunk: an inline image when \<open>p?.inlineData?.data\<close> is truthy,
  else a text delta when \<open>p?.text\<close> is a non-empty string, else nothing. The
  artifact name takes \<open>genIndex++\<close> before the write, and a write that raises is
  ignored.
\<close>

definition assistant_file_name :: "jsstring \<Rightarrow> nat \<Rightarrow> nat \<Rightarrow> jsstring \<Rightarrow> jsstring" where
  "assistant_file_name sessionId t idx ext =
     ascii ''session-'' @ sessionId @ ascii ''-assistant-'' @ show_nat t @ ascii ''-'' @
     show_nat idx @ ascii ''.'' @ ext"

definition inline_of :: "raw_part \<Rightarrow> (jsstring option \<times> jsstring) option" where
  "inline_of p =
     (case raw_inlineData p of
        None \<Rightarrow> None
      | Some i \<Rightarrow>
          (case raw_data i of
             None \<Rightarrow> None
           | Some d \<Rightarrow> if d \<noteq> [] then Some (raw_mimeType i, d) else None))"

definition relay_part :: "env \<Rightarrow> raw_part \<Rightarrow> task \<Rightarrow> world \<Rightarrow> task \<times> world" where
  "relay_part e p t w =
     (case inline_of p of
        Some (m, d) \<Rightarrow>
          (let outMime = (case m of None \<Rightarrow> ascii ''image/png''
                                   | Some x \<Rightarrow> or_else x (ascii ''image/png''));
               res1 = sseSend (ImageEvent outMime d) (t_res t);
               ext = extFromMime e outMime;
               fileName = assistant_file_name (t_sessionId t)
                            (turn (heap w (t_sess t)) + 1) (t_genIndex t) ext;
               t1 = t\<lparr>t_genIndex := t_genIndex t + 1\<rparr>;
               buf = fromBase64 e d;
               (res2, w1) =
                 (case saveBufferToArtifacts e fileName buf w of
                    Inl _ \<Rightarrow> (res1, w)
                  | Inr w' \<Rightarrow>
                      (sseSend (Status (ascii ''Saved generated image: '' @ fileName)) res1, w'))
           in (t1\<lparr>t_res := res2,
                  t_assistantParts := t_assistantParts t1 @ [InlineData outMime d]\<rparr>, w1))
      | None \<Rightarrow>
          (case raw_text p of
             None \<Rightarrow> (t, w)
           | Some s \<Rightarrow>
               if length s > 0
               then (t\<lparr>t_res := sseSend (TextDelta s) (t_res t),
                       t_assistantParts := t_assistantParts t @ [Text s]\<rparr>, w)
               else (t, w)))"

fun relay_parts :: "env \<Rightarrow> raw_part list \<Rightarrow> task \<Rightarrow> world \<Rightarrow> task \<times> world" where
  "relay_parts e [] t w = (t, w)"
| "relay_parts e (p # ps) t w =
     (case relay_part e p t w of (t1, w1) \<Rightarrow> relay_parts e ps t1 w1)"

definition stream_chunk :: "env \<Rightarrow> raw_part list option \<Rightarrow> task \<Rightarrow> world \<Rightarrow> task \<times> world" where
  "stream_chunk e chunk t w =
     relay_parts e (case chunk of None \<Rightarrow> [] | Some ps \<Rightarrow> ps) t w"

text \<open>
  Write-back after a completed stream: the title and creation time of the document
  when there is one (and they are not empty), defaults otherwise; a write that raises
  is ignored.
\<close>

definition persist :: "env \<Rightarrow> jsstring \<Rightarrow> chat_message list \<Rightarrow> world \<Rightarrow> world" where
  "persist e sessionId h w =
     (let existing = (case loadSessionFile sessionId w of Inl _ \<Rightarrow> None | Inr f \<Rightarrow> Some f);
          t = (case existing of
                 None \<Rightarrow> session_label (toLocaleString e)
               | Some f \<Rightarrow> or_else (title f) (session_label (toLocaleString e)));
          c = (case existing of
                 None \<Rightarrow> toISOString e
               | Some f \<Rightarrow> or_else (createdAt f) (toISOString e))
      in case saveSessionFile e
                \<lparr>file_id = sessionId, title = t, createdAt = c, updatedAt = toISOString e,
                 file_history = h\<rparr> w of
           Inl _ \<Rightarrow> w
         | Inr w' \<Rightarrow> w')"

text \<open>The sequence is exhausted: commit, write back, \<open>done\<close>, then \<open>finally\<close>.\<close>

definition stream_commit :: "env \<Rightarrow> task \<Rightarrow> world \<Rightarrow> channel \<times> world" where
  "stream_commit e t w =
     (let r = t_sess t;
          sess = heap w r;
          sess1 = sess\<lparr>history := history sess @ [\<lparr>role = Model, parts = t_assistantParts t\<rparr>]\<rparr>;
          sess2 = sess1\<lparr>turn := turn sess1 + 1\<rparr>;
          w1 = w\<lparr>heap := (heap w)(r := sess2)\<rparr>;
          w2 = persist e (t_sessionId t) (history (heap w1 r)) w1;
          res1 = sseSend Done (t_res t)
      in stream_finally r res1 w2)"

text \<open>The generation call or the sequence raised: \<open>catch\<close>, then \<open>finally\<close>.\<close>

definition error_message :: "jsstring option \<Rightarrow> jsstring" where
  "error_message err =
     (case err of None \<Rightarrow> ascii ''Generation failed''
                | Some m \<Rightarrow> or_else m (ascii ''Generation failed''))"

definition stream_catch :: "jsstring option \<Rightarrow> task \<Rightarrow> world \<Rightarrow> channel \<times> world" where
  "stream_catch err t w =
     stream_finally (t_sess t) (sseSend (Error (error_message err)) (t_res t)) w"

text \<open>The rest of the handler, pulling the lazy sequence until it ends or raises.\<close>

fun stream_run :: "env \<Rightarrow> item list \<Rightarrow> task \<Rightarrow> world \<Rightarrow> channel \<times> world" where
  "stream_run e [] t w = stream_commit e t w"
| "stream_run e (Raise err # rest) t w = stream_catch err t w"
| "stream_run e (Chunk c # rest) t w =
     (case stream_chunk e c t w of (t1, w1) \<Rightarrow> stream_run e rest t1 w1)"

text \<open>
  \<open>GET /stream/session/:sessionId\<close>, run with nothing else in between. Other
  requests can be served while the handler is suspended: between \<open>stream_open\<close> and
  \<open>stream_run\<close>, and between the chunks.
\<close>

definition streamTurn :: "env \<Rightarrow> jsstring \<Rightarrow> world \<Rightarrow> channel \<times> world" where
  "streamTurn e sessionId w =
     (case stream_open e sessionId w of
        (Closed res, w1) \<Rightarrow> (res, w1)
      | (InFlight t pending, w1) \<Rightarrow> stream_run e pending t w1)"






text \<open>
  What an upstream answer amounts to: the error it raises first, if any (a rejected
  call, or the first pull that raises), and whether a part is one the relay uses (an
  inline image with data, or a non-empty text).
\<close>

fun first_raise :: "item list \<Rightarrow> jsstring option option" where
  "first_raise [] = None"
| "first_raise (Raise err # rest) = Some err"
| "first_raise (Chunk c # rest) = first_raise rest"

fun raised :: "upstream \<Rightarrow> jsstring option option" where
  "raised (Rejects err) = Some err"
| "raised (Yields xs) = first_raise xs"



section \<open>Sequences of turns\<close>

text \<open>
  One turn: a user message (its text and files, under the environment of that
  request), then the stream of the session (under its own environment). The turn is
  successful when the message is accepted and the stream closes on \<open>done\<close>.
\<close>

type_synonym turn_input = "env \<times> jsstring option \<times> upload list \<times> env"

fun run_turn :: "jsstring \<Rightarrow> turn_input \<Rightarrow> world \<Rightarrow> world option" where
  "run_turn sessionId (ea, text, fs, es) w =
     (case acceptMessage ea \<lparr>body_sessionId = Some sessionId, body_text = text, files = fs\<rparr> w of
        (Inl _, _) \<Rightarrow> None
      | (Inr _, w1) \<Rightarrow>
          (case streamTurn es sessionId w1 of
             (res, w2) \<Rightarrow>
               if written res \<noteq> [] \<and> last (written res) = Done then Some w2 else None))"

fun run_turns :: "jsstring \<Rightarrow> turn_input list \<Rightarrow> world \<Rightarrow> world option" where
  "run_turns sessionId [] w = Some w"
| "run_turns sessionId (x # xs) w =
     (case run_turn sessionId x w of None \<Rightarrow> None | Some w1 \<Rightarrow> run_turns sessionId xs w1)"

text \<open>
  The registry is a module-level \<open>new Map()\<close>: a process that starts again has an
  empty registry and finds the documents and artifacts of the one before.
\<close>

definition restart :: "world \<Rightarrow> world" where
  "restart w = w\<lparr>sessions := Map.empty\<rparr>"

section \<open>Concrete scenarios\<close>

text \<open>
  A small environment and an empty server, on which the properties below are run:
  the API key is set, \<open>image/png\<close> is the one MIME type the \<open>mime\<close> package knows,
  the model answers with an empty sequence, and every write and every removal
  succeeds.
\<close>

definition env0 :: env where
  "env0 =
     \<lparr>GEMINI_API_KEY = Some (ascii ''key''), GENAI_MODEL = None,
      getExtension = (\<lambda>m. if m = ascii ''image/png'' then Some (ascii ''png'') else None),
      generateContentStream = (\<lambda>_. Yields []),
      toLocaleString = ascii ''2025/9/2 19:53:13'', toISOString = ascii ''2025-09-02T11:53:13.000Z'',
      toBase64 = (\<lambda>_. ascii ''QQ==''), fromBase64 = (\<lambda>_. [0x41]),
      write_raises = (\<lambda>_. False), unlink_raises = (\<lambda>_. False)\<rparr>"

definition world0 :: world where
  "world0 =
     \<lparr>sessions = Map.empty,
      heap = (\<lambda>_. \<lparr>sess_id = [], history = [], generating = False, turn = 0\<rparr>),
      next_ref = 0, store = Map.empty, artifacts = Map.empty\<rparr>"

definition sid0 :: jsstring where
  "sid0 = ascii ''s1''"

definition say :: "string \<Rightarrow> message_request" where
  "say s = \<lparr>body_sessionId = Some sid0, body_text = Some (ascii s), files = []\<rparr>"

definition text_part :: "jsstring \<Rightarrow> raw_part" where
  "text_part s = \<lparr>raw_inlineData = None, raw_text = Some s\<rparr>"

definition image_part :: "jsstring \<Rightarrow> jsstring \<Rightarrow> raw_part" where
  "image_part m d =
     \<lparr>raw_inlineData = Some \<lparr>raw_mimeType = Some m, raw_data = Some d\<rparr>, raw_text = None\<rparr>"

text \<open>A text chunk and then an image chunk, as in the cat scenario of the specification.\<close>

definition cat_upstream :: "jsstring \<Rightarrow> upstream" where
  "cat_upstream d =
     Yields [Chunk (Some [text_part (ascii ''Here's a cat'')]),
             Chunk (Some [image_part (ascii ''image/png'') d])]"

definition env_cat :: env where
  "env_cat = env0\<lparr>generateContentStream := (\<lambda>_. cat_upstream (ascii ''AAAA''))\<rparr>"

text \<open>The session \<open>s1\<close> just created, and after the message \<open>draw a cat\<close>.\<close>

definition created :: world where
  "created = snd (create_session env0 sid0 world0)"

definition asked :: world where
  "asked = snd (acceptMessage env0 (say ''draw a cat'') created)"

text \<open>The same session while its first stream is suspended on the generation call.\<close>

definition streaming :: world where
  "streaming = snd (stream_open env0 sid0 asked)"

text \<open>An upstream that yields one text chunk and then raises.\<close>

definition env_boom :: env where
  "env_boom = env0\<lparr>generateContentStream :=
     (\<lambda>_. Yields [Chunk (Some [text_part (ascii ''Here'')]), Raise (Some (ascii ''boom''))])\<rparr>"

text \<open>An upstream whose chunks carry nothing the relay uses.\<close>

definition env_mute :: env where
  "env_mute = env0\<lparr>generateContentStream :=
     (\<lambda>_. Yields [Chunk None, Chunk (Some [text_part [], \<lparr>raw_inlineData = None, raw_text = None\<rparr>])])\<rparr>"



text \<open>
  The session loaded again (\<open>GET /session/s1\<close>) while its first stream is suspended.
\<close>

definition reloaded :: world where
  "reloaded = snd (load_session sid0 streaming)"

text \<open>The server started again after the cat turn has completed.\<close>

definition cold :: world where
  "cold = restart (snd (streamTurn env_cat sid0 asked))"

text \<open>Two turns on the session \<open>s1\<close>.\<close>

definition two_turns :: "turn_input list" where
  "two_turns =
     [(env0, Some (ascii ''draw a cat''), [], env_cat),
      (env0, Some (ascii ''and a dog''), [], env_mute)]"

text \<open>An environment in which the session documents can be neither written nor removed.\<close>

definition env_readonly :: env where
  "env_readonly = env_mute\<lparr>write_raises := (\<lambda>_. True), unlink_raises := (\<lambda>_. True)\<rparr>"

section \<open>Properties of the title derivation\<close>

lemma dropWhile_no_space: "\<forall>c\<in>set t. \<not> is_space c \<Longrightarrow> dropWhile is_space t = t"
  by (cases t) auto

lemma trim_no_space: "\<forall>c\<in>set t. \<not> is_space c \<Longrightarrow> trim t = t"
  by (simp add: trim_def dropWhile_no_space)

lemma collapse_no_space: "\<forall>c\<in>set t. \<not> is_space c \<Longrightarrow> collapse_spaces t = t"
  by (induction t) auto

lemma dropWhile_Nil_iff: "dropWhile P xs = [] \<longleftrightarrow> (\<forall>x\<in>set xs. P x)"
  by (induction xs) auto

lemma trim_Nil_iff: "trim s = [] \<longleftrightarrow> (\<forall>c\<in>set s. is_space c)"
proof
  assume "trim s = []"
  then have all: "\<forall>c\<in>set (dropWhile is_space s). is_space c"
    by (simp add: trim_def dropWhile_Nil_iff)
  have "dropWhile is_space s = []"
  proof (rule ccontr)
    assume ne: "dropWhile is_space s \<noteq> []"
    then have "\<not> is_space (hd (dropWhile is_space s))"
      by (rule hd_dropWhile)
    moreover from ne have "hd (dropWhile is_space s) \<in> set (dropWhile is_space s)"
      by simp
    ultimately show False using all by blast
  qed
  then show "\<forall>c\<in>set s. is_space c"
    by (simp add: dropWhile_Nil_iff)
next
  assume "\<forall>c\<in>set s. is_space c"
  then have "dropWhile is_space s = []" by (simp add: dropWhile_Nil_iff)
  then show "trim s = []" unfolding trim_def by (simp only: rev.simps dropWhile.simps)
qed

lemma is_space_SP: "is_space 0x20"
  by (simp add: is_space_def)

lemma ex_nonspace_dropWhile:
  "(\<exists>c\<in>set (dropWhile is_space cs). \<not> is_space c) \<longleftrightarrow> (\<exists>c\<in>set cs. \<not> is_space c)"
  by (induction cs) auto

lemma collapse_nonspace:
  "(\<exists>c\<in>set (collapse_spaces t). \<not> is_space c) \<longleftrightarrow> (\<exists>c\<in>set t. \<not> is_space c)"
  by (induction t rule: collapse_spaces.induct) (auto simp: is_space_SP ex_nonspace_dropWhile)

lemma trim_collapse_Nil_iff: "trim (collapse_spaces t) = [] \<longleftrightarrow> trim t = []"
  using collapse_nonspace [of t] by (auto simp: trim_Nil_iff)

text \<open>
  C8 (as amended). The derived title in the four cases of the specification: the text
  \<open>"  Hello   world  "\<close> gives \<open>"Hello world"\<close>; a text of 40 characters none of
  which is white space gives its first 30 characters followed by the ellipsis U+2026;
  no text and 3 images give the images label for 3; neither text nor images gives the
  session label followed by the clock reading. In general a text whose
  white-space-collapsed, trimmed form is not empty and at most 30 characters long
  gives that form unchanged. (A text that is empty after trimming counts as no text.)
\<close>

theorem deriveTitle_cases:
  "deriveTitle now (Some (ascii ''  Hello   world  '')) 0 = ascii ''Hello world''
   \<and> (length t = 40 \<and> (\<forall>c\<in>set t. \<not> is_space c) \<longrightarrow>
        deriveTitle now (Some t) n = take 30 t @ ellipsis)
   \<and> deriveTitle now None 3 = [0x56FE, 0x7247, 0x5BF9, 0x8BDD, 0xFF08] @ ascii ''3'' @ [0x5F20, 0xFF09]
   \<and> deriveTitle now None 0 = [0x4F1A, 0x8BDD, 0x20] @ now
   \<and> (trim (collapse_spaces u) \<noteq> [] \<and> length (trim (collapse_spaces u)) \<le> 30 \<longrightarrow>
        deriveTitle now (Some u) m = trim (collapse_spaces u))"
proof (intro conjI impI)
  show "deriveTitle now (Some (ascii ''  Hello   world  '')) 0 = ascii ''Hello world''"
    by (simp add: deriveTitle_def ascii_def is_space_def trim_def)
next
  assume h: "length t = 40 \<and> (\<forall>c\<in>set t. \<not> is_space c)"
  then have "trim t = t" "collapse_spaces t = t" "t \<noteq> []"
    by (auto simp: trim_no_space collapse_no_space)
  with h show "deriveTitle now (Some t) n = take 30 t @ ellipsis"
    by (simp add: deriveTitle_def)
next
  show "deriveTitle now None 3 = [0x56FE, 0x7247, 0x5BF9, 0x8BDD, 0xFF08] @ ascii ''3'' @ [0x5F20, 0xFF09]"
    by (simp add: deriveTitle_def images_label_def show_nat.simps ascii_def)
next
  show "deriveTitle now None 0 = [0x4F1A, 0x8BDD, 0x20] @ now"
    by (simp add: deriveTitle_def session_label_def)
next
  assume h: "trim (collapse_spaces u) \<noteq> [] \<and> length (trim (collapse_spaces u)) \<le> 30"
  then have "trim u \<noteq> []" by (simp add: trim_collapse_Nil_iff)
  moreover from this have "u \<noteq> []" by (auto simp: trim_def)
  ultimately show "deriveTitle now (Some u) m = trim (collapse_spaces u)"
    using h by (simp add: deriveTitle_def)
qed

theorem deriveTitle_cases_witness:
  "deriveTitle (ascii ''now'') (Some (ascii ''0123456789abcdefghijklmnopqrstuvwxyzABCD'')) 0
     = ascii ''0123456789abcdefghijklmnopqrst'' @ [0x2026]
   \<and> deriveTitle (ascii ''now'') (Some (ascii '' a  cat '')) 0 = ascii ''a cat''"
  using deriveTitle_cases [of "ascii ''now''" "ascii ''0123456789abcdefghijklmnopqrstuvwxyzABCD''" 0
      "ascii '' a  cat ''" 0]
  by (simp add: ascii_def is_space_def trim_def ellipsis_def)

text \<open>
  The general statement of C8 without the restriction to non-empty forms fails: the
  form of a blank text is empty, hence at most 30 characters long, and the title is
  the session label.
\<close>

theorem deriveTitle_blank_counterexample:
  "length (trim (collapse_spaces (ascii ''  ''))) \<le> 30
   \<and> deriveTitle (ascii ''now'') (Some (ascii ''  '')) 0 \<noteq> trim (collapse_spaces (ascii ''  ''))"
  by (simp add: deriveTitle_def ascii_def is_space_def trim_def session_label_def)

section \<open>Properties of the session repository\<close>

text \<open>
  C9 (as amended). Deleting a session always answers \<open>{ ok: true }\<close>, whether or not a
  document or a registry entry exists for the id. Afterwards the registry has no entry
  for the id, and the repository has no document for it unless \<open>unlink\<close> raised on
  it: every error of \<open>unlink\<close> is ignored, and the document then stays. Every other
  document and entry is as before. A later delete of the same id answers the same in
  any environment, and in the same environment changes nothing.
\<close>

theorem delete_session_idempotent:
  "fst (delete_session e i w) = Inr True
   \<and> sessions (snd (delete_session e i w)) = (sessions w)(i := None)
   \<and> store (snd (delete_session e i w)) =
       (if unlink_raises e (SessPath i) then store w else (store w)(i := None))
   \<and> fst (delete_session e' i (snd (delete_session e i w))) = Inr True
   \<and> delete_session e i (snd (delete_session e i w)) = (Inr True, snd (delete_session e i w))"
  by (cases "store w i")
    (auto simp: delete_session_def deleteSessionFile_def unlink_def Let_def fun_upd_idem)

theorem delete_session_idempotent_witness:
  "fst (delete_session env0 sid0 created) = Inr True
   \<and> sessions (snd (delete_session env0 sid0 created)) sid0 = None
   \<and> store (snd (delete_session env0 sid0 created)) sid0 = None
   \<and> delete_session env0 sid0 (snd (delete_session env0 sid0 created)) =
       (Inr True, snd (delete_session env0 sid0 created))"
  using delete_session_idempotent [of env0 sid0 created env0]
  by (simp add: env0_def)

text \<open>
  C9 as stated fails where the document cannot be removed: the delete of \<open>s1\<close>
  answers \<open>{ ok: true }\<close> and drops the registry entry, and the document is still
  there.
\<close>

theorem delete_session_counterexample:
  "map_option file_id (store created sid0) = Some sid0
   \<and> fst (delete_session env_readonly sid0 created) = Inr True
   \<and> sessions (snd (delete_session env_readonly sid0 created)) sid0 = None
   \<and> map_option file_id (store (snd (delete_session env_readonly sid0 created)) sid0) = Some sid0"
  by code_simp

section \<open>Properties of message acceptance\<close>

lemma request_id_Some: "body_sessionId req = Some s \<Longrightarrow> request_id req = s"
  by (simp add: request_id_def or_else_def)

lemma saveBufferToArtifacts_frame:
  "saveBufferToArtifacts e f b w = Inr w' \<Longrightarrow>
   heap w' = heap w \<and> sessions w' = sessions w \<and> store w' = store w \<and> next_ref w' = next_ref w"
  by (auto simp: saveBufferToArtifacts_def split: if_splits)

lemma saveSessionFile_frame:
  "saveSessionFile e f w = Inr w' \<Longrightarrow>
   heap w' = heap w \<and> sessions w' = sessions w \<and> next_ref w' = next_ref w
   \<and> artifacts w' = artifacts w"
  by (auto simp: saveSessionFile_def Let_def split: if_splits)

lemma save_uploads_frame:
  "heap (snd (save_uploads e i t k fs w)) = heap w \<and>
   sessions (snd (save_uploads e i t k fs w)) = sessions w \<and>
   store (snd (save_uploads e i t k fs w)) = store w"
proof (induction fs arbitrary: k w)
  case Nil
  show ?case by simp
next
  case (Cons f fs)
  show ?case
  proof (cases "saveBufferToArtifacts e
      (user_file_name i t k (extFromMime e (or_else (mimetype f) (ascii ''image/png''))))
      (buffer f) w")
    case (Inl err)
    then show ?thesis by (simp add: Let_def)
  next
    case (Inr w1)
    obtain res w2 where r: "save_uploads e i t (Suc k) fs w1 = (res, w2)"
      by (cases "save_uploads e i t (Suc k) fs w1")
    with Cons.IH [of "Suc k" w1] have "heap w2 = heap w1 \<and> sessions w2 = sessions w1 \<and> store w2 = store w1"
      by simp
    with saveBufferToArtifacts_frame [OF Inr] Inr r show ?thesis
      by (cases res) (simp_all add: Let_def)
  qed
qed

lemma autoname_frame:
  "heap (autoname e i tx n w) = heap w \<and> sessions (autoname e i tx n w) = sessions w"
  by (auto simp: autoname_def renameSessionFile_def dest: saveSessionFile_frame split: sum.splits)

lemma blank_text_parts:
  "(case body_text req of None \<Rightarrow> True | Some t \<Rightarrow> trim t = []) \<Longrightarrow>
   (case map_option trim (body_text req) of None \<Rightarrow> [] | Some t \<Rightarrow> if t \<noteq> [] then [Text t] else []) = []"
  by (cases "body_text req") auto

lemma acceptMessage_unregistered:
  assumes "sessions w (request_id req) = None"
  shows "acceptMessage e req w = (Inl (BadRequest (ascii ''Invalid sessionId'')), w)"
  unfolding acceptMessage_def Let_def using assms by simp

text \<open>
  An accepted message leaves the registry as it is, was sent to a session that is not
  generating, and appends exactly one user message to the history of that session.
\<close>

lemma acceptMessage_accepted:
  assumes acc: "acceptMessage e req w = (Inr x, w1)"
    and live: "sessions w (request_id req) = Some r"
  shows "sessions w1 = sessions w \<and> \<not> generating (heap w r)
     \<and> (\<exists>ps. ps \<noteq> [] \<and> heap w1 = (heap w)
           (r := (heap w r)\<lparr>history := history (heap w r) @ [\<lparr>role = User, parts = ps\<rparr>]\<rparr>))"
proof -
  let ?i = "request_id req"
  let ?su = "save_uploads e ?i (turn (heap w r) + 1) 0 (files req) w"
  have idle: "\<not> generating (heap w r)"
    using acc live by (auto simp: acceptMessage_def Let_def)
  obtain res w0 where su: "?su = (res, w0)" by (cases ?su)
  have fr: "heap w0 = heap w" "sessions w0 = sessions w"
    using save_uploads_frame [of e ?i "turn (heap w r) + 1" 0 "files req" w] su by simp_all
  from acc live idle su obtain imgs where res: "res = Inr imgs"
    by (cases res) (auto simp: acceptMessage_def Let_def)
  let ?ps = "(case map_option trim (body_text req) of None \<Rightarrow> []
              | Some t \<Rightarrow> if t \<noteq> [] then [Text t] else []) @ imgs"
  let ?w2 = "w0\<lparr>heap := (heap w0)
               (r := (heap w0 r)\<lparr>history := history (heap w0 r) @ [\<lparr>role = User, parts = ?ps\<rparr>]\<rparr>)\<rparr>"
  from acc live idle su res have ne: "?ps \<noteq> []"
    by (auto simp: acceptMessage_def Let_def split: if_splits)
  from acc live idle su res ne have
    "w1 = (if turn (heap ?w2 r) = 0
           then autoname e ?i (map_option trim (body_text req)) (length (files req)) ?w2
           else ?w2)"
    by (auto simp: acceptMessage_def Let_def split: if_splits)
  then have "heap w1 = heap ?w2" "sessions w1 = sessions ?w2"
    using autoname_frame [of e ?i "map_option trim (body_text req)" "length (files req)" ?w2]
    by (auto split: if_splits)
  with fr idle ne show ?thesis by auto
qed

text \<open>
  A message of non-blank text and no files, sent to a live session that is not
  generating, is accepted with the next turn number.
\<close>

lemma acceptMessage_text:
  assumes live: "sessions w (request_id req) = Some r"
    and idle: "\<not> generating (heap w r)"
    and nofiles: "files req = []"
    and tx: "body_text req = Some t"
    and ne: "trim t \<noteq> []"
  shows "fst (acceptMessage e req w) = Inr (request_id req, turn (heap w r) + 1)
     \<and> sessions (snd (acceptMessage e req w)) = sessions w
     \<and> heap (snd (acceptMessage e req w)) = (heap w)
          (r := (heap w r)\<lparr>history := history (heap w r) @ [\<lparr>role = User, parts = [Text (trim t)]\<rparr>]\<rparr>)"
proof -
  let ?i = "request_id req"
  let ?w2 = "w\<lparr>heap := (heap w)
               (r := (heap w r)\<lparr>history := history (heap w r) @ [\<lparr>role = User, parts = [Text (trim t)]\<rparr>]\<rparr>)\<rparr>"
  let ?w3 = "if turn (heap w r) = 0 then autoname e ?i (Some (trim t)) 0 ?w2 else ?w2"
  have acc: "acceptMessage e req w = (Inr (?i, turn (heap ?w3 r) + 1), ?w3)"
    using live idle ne by (simp add: acceptMessage_def Let_def nofiles tx)
  have fr: "heap ?w3 = heap ?w2" "sessions ?w3 = sessions ?w2"
    using autoname_frame [of e ?i "Some (trim t)" 0 ?w2] by (simp_all split: if_splits)
  show ?thesis
    unfolding acc fst_conv snd_conv fr by simp
qed

lemma create_session_fresh:
  "sessions (snd (create_session e i w)) i = Some (next_ref w)"
  "heap (snd (create_session e i w)) (next_ref w) =
     \<lparr>sess_id = i, history = [], generating = False, turn = 0\<rparr>"
  by (simp_all add: create_session_def createSessionFile_def Let_def split: sum.splits)

lemma load_session_warm:
  assumes "store w i = Some f"
  shows "sessions (snd (load_session i w)) i = Some (next_ref w)"
    and "heap (snd (load_session i w)) (next_ref w) =
      \<lparr>sess_id = file_id f, history = file_history f, generating = False,
       turn = length (filter (\<lambda>m. role m = Model) (file_history f))\<rparr>"
  using assms by (simp_all add: load_session_def loadSessionFile_def Let_def)

text \<open>
  C7 (as amended). A message with no files and a text that is missing or empty after
  trimming is always rejected and changes nothing: no history entry, no artifact, no
  turn number. The error is \<open>400 Empty message\<close> when the session is live and not
  generating; the two earlier checks come first, so an unknown session id gives
  \<open>400 Invalid sessionId\<close> and a session that is generating gives \<open>409\<close>.
\<close>

theorem acceptMessage_empty_rejected:
  assumes "files req = []"
    and "case body_text req of None \<Rightarrow> True | Some t \<Rightarrow> trim t = []"
  shows "acceptMessage e req w =
     (Inl (case sessions w (request_id req) of
             None \<Rightarrow> BadRequest (ascii ''Invalid sessionId'')
           | Some r \<Rightarrow>
               if generating (heap w r)
               then Conflict (ascii ''Generation in progress, please wait'')
               else BadRequest (ascii ''Empty message'')), w)"
  unfolding acceptMessage_def Let_def blank_text_parts [OF assms(2)] assms(1)
  by (simp split: option.splits)

theorem acceptMessage_empty_rejected_witness:
  "acceptMessage env0 (say ''  '') created = (Inl (BadRequest (ascii ''Empty message'')), created)"
proof -
  have fs: "files (say ''  '') = []" by (simp add: say_def)
  have tx: "case body_text (say ''  '') of None \<Rightarrow> True | Some t \<Rightarrow> trim t = []"
    by (simp add: say_def trim_def ascii_def is_space_def)
  have live: "sessions created (request_id (say ''  '')) = Some 0" by code_simp
  have idle: "\<not> generating (heap created 0)" by code_simp
  from acceptMessage_empty_rejected [OF fs tx, of env0 created] live idle
  show ?thesis by simp
qed

text \<open>
  C7 as stated fails while a generation is in flight: the blank message is rejected
  with \<open>409\<close> (conflict), not with an invalid-input error.
\<close>

theorem empty_message_counterexample:
  "files (say ''  '') = [] \<and> body_text (say ''  '') = Some (ascii ''  '') \<and> trim (ascii ''  '') = []
   \<and> fst (acceptMessage env0 (say ''  '') streaming) =
       Inl (Conflict (ascii ''Generation in progress, please wait''))"
  by code_simp

text \<open>
  C6 (as amended). A session id is accepted only when the registry holds it. With a
  document in the repository but no registry entry the message is rejected with
  \<open>400 Invalid sessionId\<close> and nothing changes; nothing is loaded. Once the load
  endpoint has warmed the session, a text message is accepted, with the turn number
  that follows the model messages of the document.
\<close>

theorem acceptMessage_needs_registry:
  assumes doc: "store w i = Some f" and unreg: "sessions w i = None" and rid: "request_id req = i"
  shows "acceptMessage e req w = (Inl (BadRequest (ascii ''Invalid sessionId'')), w)
     \<and> (files req = [] \<and> (\<exists>t. body_text req = Some t \<and> trim t \<noteq> []) \<longrightarrow>
          fst (acceptMessage e req (snd (load_session i w))) =
            Inr (i, length (filter (\<lambda>m. role m = Model) (file_history f)) + 1))"
proof (intro conjI impI)
  show "acceptMessage e req w = (Inl (BadRequest (ascii ''Invalid sessionId'')), w)"
    using unreg rid by (simp add: acceptMessage_unregistered)
next
  assume a: "files req = [] \<and> (\<exists>t. body_text req = Some t \<and> trim t \<noteq> [])"
  then obtain t where t: "body_text req = Some t" "trim t \<noteq> []" by blast
  let ?w = "snd (load_session i w)"
  have live: "sessions ?w (request_id req) = Some (next_ref w)"
    and idle: "\<not> generating (heap ?w (next_ref w))"
    by (simp_all add: rid load_session_warm [OF doc])
  from acceptMessage_text [OF live idle _ t, of e] a
  show "fst (acceptMessage e req ?w) =
      Inr (i, length (filter (\<lambda>m. role m = Model) (file_history f)) + 1)"
    by (simp add: rid load_session_warm [OF doc])
qed

theorem acceptMessage_needs_registry_witness:
  "acceptMessage env0 (say ''hello'') cold = (Inl (BadRequest (ascii ''Invalid sessionId'')), cold)
   \<and> fst (acceptMessage env0 (say ''hello'') (snd (load_session sid0 cold))) = Inr (sid0, 2)"
proof -
  have "case store cold sid0 of None \<Rightarrow> False
        | Some f \<Rightarrow> length (filter (\<lambda>m. role m = Model) (file_history f)) = 1"
    by code_simp
  then obtain f where doc: "store cold sid0 = Some f"
    and n: "length (filter (\<lambda>m. role m = Model) (file_history f)) = 1"
    by (cases "store cold sid0") auto
  have unreg: "sessions cold sid0 = None" by (simp add: cold_def restart_def)
  have rid: "request_id (say ''hello'') = sid0" by (simp add: say_def request_id_Some)
  have fs: "files (say ''hello'') = []" by (simp add: say_def)
  have tx: "\<exists>t. body_text (say ''hello'') = Some t \<and> trim t \<noteq> []"
    by (simp add: say_def trim_def ascii_def is_space_def)
  from acceptMessage_needs_registry [OF doc unreg rid, of env0] fs tx n
  show ?thesis by simp
qed

text \<open>
  C6 as stated fails after a restart: the document of \<open>s1\<close> is in the repository
  with its two messages, the registry is empty, and the message is rejected.
\<close>

theorem cold_session_counterexample:
  "map_option file_history (store cold sid0) =
     Some [\<lparr>role = User, parts = [Text (ascii ''draw a cat'')]\<rparr>,
           \<lparr>role = Model, parts = [Text (ascii ''Here's a cat''),
                                    InlineData (ascii ''image/png'') (ascii ''AAAA'')]\<rparr>]
   \<and> sessions cold sid0 = None
   \<and> fst (acceptMessage env0 (say ''hello'') cold) = Inl (BadRequest (ascii ''Invalid sessionId''))"
  by code_simp

section \<open>Properties of the stream handler\<close>

subsection \<open>What relaying leaves unchanged\<close>

lemma relay_part_world:
  "heap (snd (relay_part e p t w)) = heap w"
  "sessions (snd (relay_part e p t w)) = sessions w"
  "store (snd (relay_part e p t w)) = store w"
  by (auto simp: relay_part_def Let_def saveBufferToArtifacts_def split: option.splits prod.splits sum.splits)

lemma relay_part_task:
  "t_sess (fst (relay_part e p t w)) = t_sess t"
  "t_sessionId (fst (relay_part e p t w)) = t_sessionId t"
  by (auto simp: relay_part_def Let_def split: option.splits prod.splits sum.splits)

lemma relay_part_channel:
  "ended (t_res (fst (relay_part e p t w))) = ended (t_res t)"
  "ping_timer (t_res (fst (relay_part e p t w))) = ping_timer (t_res t)"
  by (auto simp: relay_part_def Let_def sseSend_def split: option.splits prod.splits sum.splits)

lemma relay_parts_world:
  "heap (snd (relay_parts e ps t w)) = heap w"
  "sessions (snd (relay_parts e ps t w)) = sessions w"
  "store (snd (relay_parts e ps t w)) = store w"
proof (induction ps arbitrary: t w)
  case Nil
  { case 1 show ?case by simp }
  { case 2 show ?case by simp }
  { case 3 show ?case by simp }
next
  case (Cons p ps)
  { case 1 show ?case using Cons.IH(1) relay_part_world(1) [of e p t w]
      by (simp split: prod.splits) (metis snd_conv) }
  { case 2 show ?case using Cons.IH(2) relay_part_world(2) [of e p t w]
      by (simp split: prod.splits) (metis snd_conv) }
  { case 3 show ?case using Cons.IH(3) relay_part_world(3) [of e p t w]
      by (simp split: prod.splits) (metis snd_conv) }
qed

lemma relay_parts_task:
  "t_sess (fst (relay_parts e ps t w)) = t_sess t"
  "t_sessionId (fst (relay_parts e ps t w)) = t_sessionId t"
  "ended (t_res (fst (relay_parts e ps t w))) = ended (t_res t)"
  "ping_timer (t_res (fst (relay_parts e ps t w))) = ping_timer (t_res t)"
proof (induction ps arbitrary: t w)
  case Nil
  { case 1 show ?case by simp }
  { case 2 show ?case by simp }
  { case 3 show ?case by simp }
  { case 4 show ?case by simp }
next
  case (Cons p ps)
  { case 1 show ?case using Cons.IH(1) relay_part_task(1) [of e p t w]
      by (simp split: prod.splits) (metis fst_conv) }
  { case 2 show ?case using Cons.IH(2) relay_part_task(2) [of e p t w]
      by (simp split: prod.splits) (metis fst_conv) }
  { case 3 show ?case using Cons.IH(3) relay_part_channel(1) [of e p t w]
      by (simp split: prod.splits) (metis fst_conv) }
  { case 4 show ?case using Cons.IH(4) relay_part_channel(2) [of e p t w]
      by (simp split: prod.splits) (metis fst_conv) }
qed

lemma stream_chunk_frame:
  assumes "stream_chunk e c t w = (t1, w1)"
  shows "heap w1 = heap w" "sessions w1 = sessions w" "store w1 = store w"
    "t_sess t1 = t_sess t" "t_sessionId t1 = t_sessionId t"
    "ended (t_res t1) = ended (t_res t)" "ping_timer (t_res t1) = ping_timer (t_res t)"
  using assms relay_parts_world [of e "case c of None \<Rightarrow> [] | Some ps \<Rightarrow> ps" t w]
    relay_parts_task [of e "case c of None \<Rightarrow> [] | Some ps \<Rightarrow> ps" t w]
  by (simp_all add: stream_chunk_def)

text \<open>
  Every run of the handler's body ends in \<open>catch\<close> when the sequence raises and in the
  commit when it does not, from a state that differs from the starting one only in the
  artifacts written, the events sent, the parts accumulated and the image index.
\<close>

lemma stream_run_cases:
  "\<exists>t1 w1. heap w1 = heap w \<and> sessions w1 = sessions w \<and> store w1 = store w
     \<and> t_sess t1 = t_sess t \<and> t_sessionId t1 = t_sessionId t
     \<and> ended (t_res t1) = ended (t_res t) \<and> ping_timer (t_res t1) = ping_timer (t_res t)
     \<and> stream_run e pending t w =
         (case first_raise pending of
            Some err \<Rightarrow> stream_catch err t1 w1
          | None \<Rightarrow> stream_commit e t1 w1)"
proof (induction pending arbitrary: t w)
  case Nil
  show ?case by (rule exI [of _ t], rule exI [of _ w]) simp
next
  case (Cons x xs)
  show ?case
  proof (cases x)
    case (Raise err)
    show ?thesis by (rule exI [of _ t], rule exI [of _ w]) (simp add: Raise)
  next
    case (Chunk c)
    obtain t0 w0 where c: "stream_chunk e c t w = (t0, w0)"
      by (cases "stream_chunk e c t w")
    from Cons.IH [where t = t0 and w = w0] obtain t1 w1 where
      "heap w1 = heap w0" "sessions w1 = sessions w0" "store w1 = store w0"
      "t_sess t1 = t_sess t0" "t_sessionId t1 = t_sessionId t0"
      "ended (t_res t1) = ended (t_res t0)" "ping_timer (t_res t1) = ping_timer (t_res t0)"
      "stream_run e xs t0 w0 =
         (case first_raise xs of Some err \<Rightarrow> stream_catch err t1 w1
          | None \<Rightarrow> stream_commit e t1 w1)"
      by blast
    with stream_chunk_frame [OF c] show ?thesis
      by (intro exI [of _ t1] exI [of _ w1]) (simp add: Chunk c)
  qed
qed

lemma generating_False_idem: "\<not> generating s \<Longrightarrow> s\<lparr>generating := False\<rparr> = s"
  by (cases s) simp

lemma first_raise_pending:
  "first_raise (case u of Rejects err \<Rightarrow> [Raise err] | Yields xs \<Rightarrow> xs) = raised u"
  by (cases u) simp_all

lemma stream_open_enters:
  assumes "sessions w i = Some r" and "\<not> generating (heap w r)" and "truthy (GEMINI_API_KEY e)"
  shows "stream_open e i w =
     (InFlight
        \<lparr>t_sessionId = i, t_sess = r,
         t_res = \<lparr>written = [Status (ascii ''Generating...'')], ended = False,
                  ping_timer = True, client_connected = True\<rparr>,
         t_assistantParts = [], t_genIndex = 0\<rparr>
        (case generateContentStream e (stream_request e (heap w r)) of
           Rejects err \<Rightarrow> [Raise err]
         | Yields xs \<Rightarrow> xs),
      w\<lparr>heap := (heap w)(r := (heap w r)\<lparr>generating := True\<rparr>)\<rparr>)"
  using assms
  by (simp add: stream_open_def Let_def sseInit_def setInterval_def sseSend_def)

lemma stream_catch_result:
  "stream_catch err t w =
     ((t_res t)\<lparr>written := written (t_res t) @ [Error (error_message err)],
                ping_timer := False, ended := True\<rparr>,
      w\<lparr>heap := (heap w)(t_sess t := (heap w (t_sess t))\<lparr>generating := False\<rparr>)\<rparr>)"
  by (simp add: stream_catch_def stream_finally_def sseSend_def clearInterval_def res_end_def)

lemma persist_frame:
  "heap (persist e i h w) = heap w"
  "sessions (persist e i h w) = sessions w"
  "artifacts (persist e i h w) = artifacts w"
  by (auto simp: persist_def Let_def dest: saveSessionFile_frame split: sum.splits)

lemma persist_store:
  "\<not> write_raises e (SessPath i) \<Longrightarrow>
   \<exists>f. store (persist e i h w) i = Some f \<and> file_id f = i \<and> file_history f = h"
  by (simp add: persist_def Let_def saveSessionFile_def split: sum.splits)



lemma stream_commit_result:
  "stream_commit e t w =
     ((t_res t)\<lparr>written := written (t_res t) @ [Done], ping_timer := False, ended := True\<rparr>,
      (let h = history (heap w (t_sess t)) @ [\<lparr>role = Model, parts = t_assistantParts t\<rparr>];
           w2 = persist e (t_sessionId t) h
                  (w\<lparr>heap := (heap w)(t_sess t := (heap w (t_sess t))\<lparr>history := h,
                        turn := turn (heap w (t_sess t)) + 1\<rparr>)\<rparr>)
       in w2\<lparr>heap := (heap w2)(t_sess t := (heap w2 (t_sess t))\<lparr>generating := False\<rparr>)\<rparr>))"
  by (simp add: stream_commit_def stream_finally_def sseSend_def clearInterval_def res_end_def
      Let_def)


subsection \<open>The generation lock\<close>

text \<open>
  While the flag of the registered session object is set, a stream request answers
  with one \<open>error\<close> event and closes, a message is rejected with \<open>409\<close>, and
  neither changes anything.
\<close>

lemma generating_guard:
  assumes "sessions w i = Some r" and "generating (heap w r)"
  shows "stream_open e i w =
           (Closed \<lparr>written = [Error (ascii ''Already generating'')], ended = True,
                    ping_timer = False, client_connected = True\<rparr>, w)"
    and "streamTurn e i w =
           (\<lparr>written = [Error (ascii ''Already generating'')], ended = True,
                    ping_timer = False, client_connected = True\<rparr>, w)"
    and "request_id req = i \<Longrightarrow> acceptMessage e req w =
           (Inl (Conflict (ascii ''Generation in progress, please wait'')), w)"
proof -
  show o: "stream_open e i w =
           (Closed \<lparr>written = [Error (ascii ''Already generating'')], ended = True,
                    ping_timer = False, client_connected = True\<rparr>, w)"
    using assms by (simp add: stream_open_def sseInit_def sseSend_def res_end_def)
  show "streamTurn e i w =
           (\<lparr>written = [Error (ascii ''Already generating'')], ended = True,
                    ping_timer = False, client_connected = True\<rparr>, w)"
    by (simp add: streamTurn_def o)
  assume rid: "request_id req = i"
  show "acceptMessage e req w =
           (Inl (Conflict (ascii ''Generation in progress, please wait'')), w)"
    unfolding acceptMessage_def Let_def rid using assms by simp
qed

text \<open>
  C1. The guard above is what the claim describes, but it does not keep generations of
  one session apart. The load endpoint puts a new session object, with the flag
  cleared, under an id whose stream is suspended on the generation call. In the
  scenario: the first stream of \<open>s1\<close> is in flight and holds object 0; after
  \<open>GET /session/s1\<close> the registry holds object 1; a message for \<open>s1\<close> is then
  accepted and a second stream of \<open>s1\<close> enters the generating state, so that two
  generations of the session are in flight together.
\<close>

theorem reload_admits_second_generation:
  "is_InFlight (fst (stream_open env0 sid0 asked))
   \<and> sessions streaming sid0 = Some 0
   \<and> generating (heap streaming 0)
   \<and> sessions reloaded sid0 = Some 1
   \<and> fst (acceptMessage env0 (say ''again'') reloaded) = Inr (sid0, 1)
   \<and> is_InFlight (fst (stream_open env0 sid0 reloaded))
   \<and> t_sessionId (flight_task (fst (stream_open env0 sid0 reloaded))) = sid0
   \<and> generating (heap (snd (stream_open env0 sid0 reloaded)) 0)
   \<and> generating (heap (snd (stream_open env0 sid0 reloaded)) 1)"
  by code_simp

subsection \<open>Errors from upstream\<close>

text \<open>
  C2. When the generation call rejects or the chunk sequence raises, the last event
  written is the \<open>error\<close> event with the message of the error (or
  \<open>Generation failed\<close>), the channel is ended and the keep-alive timer cleared; the
  session objects, hence the history, the turn counter and the generating flag
  (cleared) of the session, are as before the stream started, and so are the documents
  and the registry.
\<close>

theorem stream_error_no_commit:
  assumes live: "sessions w i = Some r"
    and idle: "\<not> generating (heap w r)"
    and key: "truthy (GEMINI_API_KEY e)"
    and err: "raised (generateContentStream e (stream_request e (heap w r))) = Some err"
  shows "last (written (fst (streamTurn e i w))) = Error (error_message err)
     \<and> ended (fst (streamTurn e i w))
     \<and> \<not> ping_timer (fst (streamTurn e i w))
     \<and> heap (snd (streamTurn e i w)) = heap w
     \<and> history (heap (snd (streamTurn e i w)) r) = history (heap w r)
     \<and> turn (heap (snd (streamTurn e i w)) r) = turn (heap w r)
     \<and> \<not> generating (heap (snd (streamTurn e i w)) r)
     \<and> store (snd (streamTurn e i w)) = store w
     \<and> sessions (snd (streamTurn e i w)) = sessions w"
proof -
  let ?pending = "case generateContentStream e (stream_request e (heap w r)) of
                    Rejects err \<Rightarrow> [Raise err] | Yields xs \<Rightarrow> xs"
  let ?t = "\<lparr>t_sessionId = i, t_sess = r,
         t_res = \<lparr>written = [Status (ascii ''Generating...'')], ended = False,
                  ping_timer = True, client_connected = True\<rparr>,
         t_assistantParts = [], t_genIndex = 0\<rparr>"
  let ?w = "w\<lparr>heap := (heap w)(r := (heap w r)\<lparr>generating := True\<rparr>)\<rparr>"
  have run: "streamTurn e i w = stream_run e ?pending ?t ?w"
    by (simp add: streamTurn_def stream_open_enters [OF live idle key])
  have fr: "first_raise ?pending = Some err"
    using err by (simp add: first_raise_pending)
  obtain t1 w1 where f: "heap w1 = heap ?w" "sessions w1 = sessions ?w" "store w1 = store ?w"
      "t_sess t1 = t_sess ?t"
    and r: "stream_run e ?pending ?t ?w = stream_catch err t1 w1"
    using stream_run_cases [of ?w ?t e ?pending] fr by auto
  have h: "heap (snd (streamTurn e i w)) = heap w"
    using f idle by (simp add: run r stream_catch_result generating_False_idem)
  have "last (written (fst (streamTurn e i w))) = Error (error_message err)"
    "ended (fst (streamTurn e i w))" "\<not> ping_timer (fst (streamTurn e i w))"
    "store (snd (streamTurn e i w)) = store w" "sessions (snd (streamTurn e i w)) = sessions w"
    using f by (simp_all add: run r stream_catch_result)
  with h idle show ?thesis by simp
qed

theorem stream_error_no_commit_witness:
  "written (fst (streamTurn env_boom sid0 asked)) =
     [Status (ascii ''Generating...''), TextDelta (ascii ''Here''), Error (ascii ''boom'')]
   \<and> last (written (fst (streamTurn env_boom sid0 asked))) = Error (ascii ''boom'')
   \<and> ended (fst (streamTurn env_boom sid0 asked))
   \<and> \<not> ping_timer (fst (streamTurn env_boom sid0 asked))
   \<and> heap (snd (streamTurn env_boom sid0 asked)) = heap asked
   \<and> history (heap (snd (streamTurn env_boom sid0 asked)) 0) = history (heap asked 0)
   \<and> turn (heap (snd (streamTurn env_boom sid0 asked)) 0) = turn (heap asked 0)
   \<and> \<not> generating (heap (snd (streamTurn env_boom sid0 asked)) 0)
   \<and> store (snd (streamTurn env_boom sid0 asked)) = store asked
   \<and> sessions (snd (streamTurn env_boom sid0 asked)) = sessions asked"
proof -
  have live: "sessions asked sid0 = Some 0" by code_simp
  have idle: "\<not> generating (heap asked 0)" by code_simp
  have key: "truthy (GEMINI_API_KEY env_boom)" by code_simp
  have err: "raised (generateContentStream env_boom (stream_request env_boom (heap asked 0)))
      = Some (Some (ascii ''boom''))"
    by (simp add: env_boom_def)
  have msg: "error_message (Some (ascii ''boom'')) = ascii ''boom''"
    by (simp add: error_message_def or_else_def ascii_def)
  have ev: "written (fst (streamTurn env_boom sid0 asked)) =
     [Status (ascii ''Generating...''), TextDelta (ascii ''Here''), Error (ascii ''boom'')]"
    by code_simp
  from stream_error_no_commit [OF live idle key err] ev show ?thesis
    unfolding msg by blast
qed

subsection \<open>Completed streams\<close>







text \<open>
  A stream that closes on \<open>done\<close> has appended exactly one model message, and a
  stream on an idle session with the key set closes on \<open>done\<close> when upstream does
  not raise.
\<close>

lemma streamTurn_done:
  assumes live: "sessions w i = Some r"
    and ne: "written (fst (streamTurn e i w)) \<noteq> []"
    and dn: "last (written (fst (streamTurn e i w))) = Done"
  shows "sessions (snd (streamTurn e i w)) = sessions w
     \<and> \<not> generating (heap (snd (streamTurn e i w)) r)
     \<and> (\<exists>ps. history (heap (snd (streamTurn e i w)) r) =
               history (heap w r) @ [\<lparr>role = Model, parts = ps\<rparr>])"
proof (cases "generating (heap w r)")
  case True
  with live dn show ?thesis
    by (simp add: streamTurn_def stream_open_def sseInit_def sseSend_def res_end_def)
next
  case idle: False
  show ?thesis
  proof (cases "truthy (GEMINI_API_KEY e)")
    case False
    with live idle dn show ?thesis
      by (simp add: streamTurn_def stream_open_def sseInit_def sseSend_def res_end_def
          setInterval_def clearInterval_def stream_finally_def)
  next
    case key: True
    let ?pending = "case generateContentStream e (stream_request e (heap w r)) of
                      Rejects err \<Rightarrow> [Raise err] | Yields xs \<Rightarrow> xs"
    let ?t = "\<lparr>t_sessionId = i, t_sess = r,
           t_res = \<lparr>written = [Status (ascii ''Generating...'')], ended = False,
                    ping_timer = True, client_connected = True\<rparr>,
           t_assistantParts = [], t_genIndex = 0\<rparr>"
    let ?w = "w\<lparr>heap := (heap w)(r := (heap w r)\<lparr>generating := True\<rparr>)\<rparr>"
    have run: "streamTurn e i w = stream_run e ?pending ?t ?w"
      by (simp add: streamTurn_def stream_open_enters [OF live idle key])
    obtain t1 w1 where f: "heap w1 = heap ?w" "sessions w1 = sessions ?w"
        "t_sess t1 = t_sess ?t"
      and r: "stream_run e ?pending ?t ?w =
         (case first_raise ?pending of Some err \<Rightarrow> stream_catch err t1 w1
          | None \<Rightarrow> stream_commit e t1 w1)"
      using stream_run_cases [of ?w ?t e ?pending] by blast
    show ?thesis
    proof (cases "first_raise ?pending")
      case (Some err)
      with dn show ?thesis by (simp add: run r stream_catch_result)
    next
      case None
      with f show ?thesis
        by (simp add: run r stream_commit_result Let_def persist_frame)
    qed
  qed
qed

lemma streamTurn_completes:
  assumes live: "sessions w i = Some r"
    and idle: "\<not> generating (heap w r)"
    and key: "truthy (GEMINI_API_KEY e)"
    and ok: "raised (generateContentStream e (stream_request e (heap w r))) = None"
  shows "written (fst (streamTurn e i w)) \<noteq> []
     \<and> last (written (fst (streamTurn e i w))) = Done
     \<and> sessions (snd (streamTurn e i w)) = sessions w
     \<and> \<not> generating (heap (snd (streamTurn e i w)) r)"
proof -
  let ?pending = "case generateContentStream e (stream_request e (heap w r)) of
                    Rejects err \<Rightarrow> [Raise err] | Yields xs \<Rightarrow> xs"
  let ?t = "\<lparr>t_sessionId = i, t_sess = r,
         t_res = \<lparr>written = [Status (ascii ''Generating...'')], ended = False,
                  ping_timer = True, client_connected = True\<rparr>,
         t_assistantParts = [], t_genIndex = 0\<rparr>"
  let ?w = "w\<lparr>heap := (heap w)(r := (heap w r)\<lparr>generating := True\<rparr>)\<rparr>"
  have run: "streamTurn e i w = stream_run e ?pending ?t ?w"
    by (simp add: streamTurn_def stream_open_enters [OF live idle key])
  have fr: "first_raise ?pending = None"
    using ok by (simp add: first_raise_pending)
  obtain t1 w1 where f: "heap w1 = heap ?w" "sessions w1 = sessions ?w" "t_sess t1 = t_sess ?t"
    and r: "stream_run e ?pending ?t ?w = stream_commit e t1 w1"
    using stream_run_cases [of ?w ?t e ?pending] fr by auto
  show ?thesis
    using f by (simp add: run r stream_commit_result Let_def persist_frame)
qed

subsection \<open>Sequences of turns\<close>

lemma run_turn_roles:
  assumes run: "run_turn i x w = Some w'" and live: "sessions w i = Some r"
  shows "sessions w' i = Some r
     \<and> map role (history (heap w' r)) = map role (history (heap w r)) @ [User, Model]"
proof -
  obtain ea tx fs es where x: "x = (ea, tx, fs, es)" by (cases x)
  let ?req = "\<lparr>body_sessionId = Some i, body_text = tx, files = fs\<rparr>"
  have rid: "request_id ?req = i" by (simp add: request_id_def or_else_def)
  obtain a w1 where acc: "acceptMessage ea ?req w = (a, w1)" by (cases "acceptMessage ea ?req w")
  from run x acc obtain y where a: "a = Inr y" by (cases a) auto
  from acceptMessage_accepted [of ea ?req w y w1 r] acc a live rid obtain ps where
    s1: "sessions w1 = sessions w"
    and h1: "history (heap w1 r) = history (heap w r) @ [\<lparr>role = User, parts = ps\<rparr>]"
    by auto
  from run x acc a have w': "w' = snd (streamTurn es i w1)"
    and ne: "written (fst (streamTurn es i w1)) \<noteq> []"
    and dn: "last (written (fst (streamTurn es i w1))) = Done"
    by (auto split: prod.splits if_splits)
  from live s1 have live1: "sessions w1 i = Some r" by simp
  from streamTurn_done [OF live1 ne dn] w' obtain qs where
    "sessions w' = sessions w1"
    "history (heap w' r) = history (heap w1 r) @ [\<lparr>role = Model, parts = qs\<rparr>]"
    by auto
  with live1 h1 show ?thesis by simp
qed

lemma run_turns_roles:
  "run_turns i xs w = Some w' \<Longrightarrow> sessions w i = Some r \<Longrightarrow>
   sessions w' i = Some r
   \<and> map role (history (heap w' r)) =
       map role (history (heap w r)) @ concat (replicate (length xs) [User, Model])"
proof (induction xs arbitrary: w)
  case Nil
  then show ?case by simp
next
  case (Cons x xs)
  from Cons.prems obtain w1 where x: "run_turn i x w = Some w1" and xs: "run_turns i xs w1 = Some w'"
    by (auto split: option.splits)
  from run_turn_roles [OF x Cons.prems(2)] have
    l1: "sessions w1 i = Some r"
    and h1: "map role (history (heap w1 r)) = map role (history (heap w r)) @ [User, Model]"
    by simp_all
  from Cons.IH [OF xs l1] h1 show ?case by simp
qed

text \<open>
  A turn whose message is a non-blank text without files succeeds whenever the key is
  set and the upstream does not raise.
\<close>

lemma run_turn_succeeds:
  assumes live: "sessions w i = Some r"
    and idle: "\<not> generating (heap w r)"
    and tx: "trim t \<noteq> []"
    and key: "truthy (GEMINI_API_KEY es)"
    and ok: "\<forall>q. raised (generateContentStream es q) = None"
  shows "\<exists>w'. run_turn i (ea, Some t, [], es) w = Some w'
     \<and> sessions w' i = Some r \<and> \<not> generating (heap w' r)"
proof -
  let ?req = "\<lparr>body_sessionId = Some i, body_text = Some t, files = []\<rparr>"
  have rid: "request_id ?req = i" by (simp add: request_id_Some)
  have live0: "sessions w (request_id ?req) = Some r" using live by (simp add: rid)
  let ?w1 = "snd (acceptMessage ea ?req w)"
  from acceptMessage_text [OF live0 idle _ _ tx, of ea]
  have a: "fst (acceptMessage ea ?req w) = Inr (i, turn (heap w r) + 1)"
    and live1: "sessions ?w1 i = Some r"
    and idle1: "\<not> generating (heap ?w1 r)"
    using live idle by (simp_all add: rid)
  from ok have ok1: "raised (generateContentStream es (stream_request es (heap ?w1 r))) = None"
    by simp
  from streamTurn_completes [OF live1 idle1 key ok1] a live1
  show ?thesis
    by (cases "acceptMessage ea ?req w") (auto split: prod.splits)
qed

text \<open>
  C3. From a session with an empty history, after \<open>n\<close> successful turns the history
  has \<open>2 * n\<close> messages and its roles are \<open>user, model\<close> repeated \<open>n\<close> times.
\<close>

theorem turns_alternate:
  assumes "sessions w i = Some r"
    and "history (heap w r) = []"
    and "run_turns i xs w = Some w'"
  shows "sessions w' i = Some r
     \<and> length (history (heap w' r)) = 2 * length xs
     \<and> map role (history (heap w' r)) = concat (replicate (length xs) [User, Model])"
proof -
  from run_turns_roles [OF assms(3) assms(1)] assms(2) have
    l: "sessions w' i = Some r"
    and m: "map role (history (heap w' r)) = concat (replicate (length xs) [User, Model])"
    by simp_all
  have "length (concat (replicate (length xs) [User, Model])) = 2 * length xs"
    by (induction xs) simp_all
  then have "length (map role (history (heap w' r))) = 2 * length xs"
    by (simp only: m)
  then have "length (history (heap w' r)) = 2 * length xs"
    by (simp only: length_map)
  with l m show ?thesis by simp
qed

theorem turns_alternate_witness:
  "sessions (the (run_turns sid0 two_turns created)) sid0 = Some 0
   \<and> length (history (heap (the (run_turns sid0 two_turns created)) 0)) = 2 * length two_turns
   \<and> map role (history (heap (the (run_turns sid0 two_turns created)) 0)) =
       concat (replicate (length two_turns) [User, Model])"
proof -
  have live: "sessions created sid0 = Some 0" by code_simp
  have idle: "\<not> generating (heap created 0)" by code_simp
  have fresh: "history (heap created 0) = []" by code_simp
  have t1: "trim (ascii ''draw a cat'') \<noteq> []" and t2: "trim (ascii ''and a dog'') \<noteq> []"
    by (simp_all add: trim_def ascii_def is_space_def)
  have k1: "truthy (GEMINI_API_KEY env_cat)" and k2: "truthy (GEMINI_API_KEY env_mute)"
    by (simp_all add: env_cat_def env_mute_def env0_def truthy_def ascii_def)
  have o1: "\<forall>q. raised (generateContentStream env_cat q) = None"
    by (simp add: env_cat_def cat_upstream_def)
  have o2: "\<forall>q. raised (generateContentStream env_mute q) = None"
    by (simp add: env_mute_def)
  from run_turn_succeeds [OF live idle t1 k1 o1, of env0] obtain w1 where
    r1: "run_turn sid0 (env0, Some (ascii ''draw a cat''), [], env_cat) created = Some w1"
    and live1: "sessions w1 sid0 = Some 0" and idle1: "\<not> generating (heap w1 0)"
    by blast
  from run_turn_succeeds [OF live1 idle1 t2 k2 o2, of env0] obtain w2 where
    r2: "run_turn sid0 (env0, Some (ascii ''and a dog''), [], env_mute) w1 = Some w2"
    by blast
  have run: "run_turns sid0 two_turns created = Some (the (run_turns sid0 two_turns created))"
    using r1 r2 by (simp add: two_turns_def)
  from turns_alternate [OF live fresh run] show ?thesis .
qed

subsection \<open>The cat scenario\<close>

lemma trim_draw_a_cat: "trim (ascii ''draw a cat'') = ascii ''draw a cat''"
  by (simp add: trim_def ascii_def is_space_def)

lemma cat_run:
  assumes d: "d \<noteq> []" and t0: "turn (heap w (t_sess t)) = 0"
  shows "stream_run e [Chunk (Some [text_part (ascii ''Here's a cat'')]),
                       Chunk (Some [image_part (ascii ''image/png'') d])] t w =
     (let fileName = assistant_file_name (t_sessionId t) 1 (t_genIndex t)
                       (extFromMime e (ascii ''image/png''));
          saved = \<not> write_raises e (ArtifactPath fileName);
          res1 = (t_res t)\<lparr>written := written (t_res t) @
                   [TextDelta (ascii ''Here's a cat''), ImageEvent (ascii ''image/png'') d] @
                   (if saved then [Status (ascii ''Saved generated image: '' @ fileName)] else [])\<rparr>;
          w1 = (if saved then w\<lparr>artifacts := (artifacts w)(fileName \<mapsto> fromBase64 e d)\<rparr> else w)
      in stream_commit e
           (t\<lparr>t_genIndex := t_genIndex t + 1, t_res := res1,
              t_assistantParts := t_assistantParts t @
                [Text (ascii ''Here's a cat''), InlineData (ascii ''image/png'') d]\<rparr>) w1)"
proof -
  have a: "ascii ''Here's a cat'' \<noteq> []" "or_else (ascii ''image/png'') (ascii ''image/png'') = ascii ''image/png''"
    by (simp_all add: ascii_def or_else_def)
  show ?thesis
    using d t0 a(1)
    by (simp add: stream_chunk_def relay_part_def inline_of_def text_part_def image_part_def
        sseSend_def saveBufferToArtifacts_def Let_def a(2))
qed

text \<open>
  C4 (as amended). On a session just created, after the message \<open>draw a cat\<close> and a
  stream whose upstream yields the text chunk \<open>Here's a cat\<close> and then an inline
  PNG with non-empty data: the message gets turn number 1; the events are \<open>status\<close>,
  \<open>text\<close>, \<open>image\<close>, then a second \<open>status\<close> event naming the saved artifact
  unless writing the artifact raised, then \<open>done\<close>; the history is the user message
  with its text and the model message with the text and the image; the turn counter
  is 1.
\<close>

theorem cat_scenario:
  assumes key: "truthy (GEMINI_API_KEY e2)"
    and gen: "\<forall>q. generateContentStream e2 q = cat_upstream d"
    and d: "d \<noteq> []"
  shows "let w1 = snd (create_session e0 i w0);
             a = acceptMessage e1
                   \<lparr>body_sessionId = Some i, body_text = Some (ascii ''draw a cat''), files = []\<rparr> w1;
             s = streamTurn e2 i (snd a);
             r = next_ref w0;
             fileName = assistant_file_name i 1 0 (extFromMime e2 (ascii ''image/png''))
         in fst a = Inr (i, 1)
          \<and> written (fst s) =
              [Status (ascii ''Generating...''), TextDelta (ascii ''Here's a cat''),
               ImageEvent (ascii ''image/png'') d] @
              (if write_raises e2 (ArtifactPath fileName) then []
               else [Status (ascii ''Saved generated image: '' @ fileName)]) @
              [Done]
          \<and> history (heap (snd s) r) =
              [\<lparr>role = User, parts = [Text (ascii ''draw a cat'')]\<rparr>,
               \<lparr>role = Model, parts = [Text (ascii ''Here's a cat''),
                                        InlineData (ascii ''image/png'') d]\<rparr>]
          \<and> turn (heap (snd s) r) = 1"
proof -
  let ?r = "next_ref w0"
  let ?w1 = "snd (create_session e0 i w0)"
  let ?req = "\<lparr>body_sessionId = Some i, body_text = Some (ascii ''draw a cat''), files = []\<rparr>"
  let ?a = "acceptMessage e1 ?req ?w1"
  let ?w2 = "snd ?a"
  have rid: "request_id ?req = i" by (simp add: request_id_def or_else_def)
  have live1: "sessions ?w1 (request_id ?req) = Some ?r"
    and idle1: "\<not> generating (heap ?w1 ?r)"
    by (simp_all add: rid create_session_fresh)
  have ne: "trim (ascii ''draw a cat'') \<noteq> []"
    by (simp add: trim_draw_a_cat) (simp add: ascii_def)
  from acceptMessage_text [OF live1 idle1 _ _ ne, of e1]
  have a1: "fst ?a = Inr (i, 1)"
    and s2: "sessions ?w2 = sessions ?w1"
    and h2: "heap ?w2 ?r = \<lparr>sess_id = i,
        history = [\<lparr>role = User, parts = [Text (ascii ''draw a cat'')]\<rparr>],
        generating = False, turn = 0\<rparr>"
    by (simp_all add: rid create_session_fresh trim_draw_a_cat)
  have live2: "sessions ?w2 i = Some ?r" by (simp add: s2 create_session_fresh)
  have idle2: "\<not> generating (heap ?w2 ?r)" by (simp add: h2)
  let ?t = "\<lparr>t_sessionId = i, t_sess = ?r,
         t_res = \<lparr>written = [Status (ascii ''Generating...'')], ended = False,
                  ping_timer = True, client_connected = True\<rparr>,
         t_assistantParts = [], t_genIndex = 0\<rparr>"
  let ?w = "?w2\<lparr>heap := (heap ?w2)(?r := (heap ?w2 ?r)\<lparr>generating := True\<rparr>)\<rparr>"
  have run: "streamTurn e2 i ?w2 =
      stream_run e2 [Chunk (Some [text_part (ascii ''Here's a cat'')]),
                     Chunk (Some [image_part (ascii ''image/png'') d])] ?t ?w"
    using gen by (simp add: streamTurn_def stream_open_enters [OF live2 idle2 key] cat_upstream_def)
  have t0: "turn (heap ?w (t_sess ?t)) = 0" by (simp add: h2)
  have ev: "written (fst (streamTurn e2 i ?w2)) =
      [Status (ascii ''Generating...''), TextDelta (ascii ''Here's a cat''),
       ImageEvent (ascii ''image/png'') d] @
      (if write_raises e2 (ArtifactPath (assistant_file_name i 1 0 (extFromMime e2 (ascii ''image/png''))))
       then []
       else [Status (ascii ''Saved generated image: '' @
               assistant_file_name i 1 0 (extFromMime e2 (ascii ''image/png'')))]) @
      [Done]"
    unfolding run cat_run [OF d t0] by (simp add: Let_def stream_commit_result)
  have hp: "heap (snd (streamTurn e2 i ?w2)) ?r =
      \<lparr>sess_id = i,
       history = [\<lparr>role = User, parts = [Text (ascii ''draw a cat'')]\<rparr>,
                  \<lparr>role = Model, parts = [Text (ascii ''Here's a cat''),
                                           InlineData (ascii ''image/png'') d]\<rparr>],
       generating = False, turn = 1\<rparr>"
    unfolding run cat_run [OF d t0] by (simp add: Let_def stream_commit_result persist_frame h2)
  show ?thesis
    unfolding Let_def using a1 ev hp by simp
qed

theorem cat_scenario_witness:
  "let w1 = snd (create_session env0 sid0 world0);
       a = acceptMessage env0
             \<lparr>body_sessionId = Some sid0, body_text = Some (ascii ''draw a cat''), files = []\<rparr> w1;
       s = streamTurn env_cat sid0 (snd a);
       r = next_ref world0;
       fileName = assistant_file_name sid0 1 0 (extFromMime env_cat (ascii ''image/png''))
   in fst a = Inr (sid0, 1)
    \<and> written (fst s) =
        [Status (ascii ''Generating...''), TextDelta (ascii ''Here's a cat''),
         ImageEvent (ascii ''image/png'') (ascii ''AAAA'')] @
        (if write_raises env_cat (ArtifactPath fileName) then []
         else [Status (ascii ''Saved generated image: '' @ fileName)]) @
        [Done]
    \<and> history (heap (snd s) r) =
        [\<lparr>role = User, parts = [Text (ascii ''draw a cat'')]\<rparr>,
         \<lparr>role = Model, parts = [Text (ascii ''Here's a cat''),
                                  InlineData (ascii ''image/png'') (ascii ''AAAA'')]\<rparr>]
    \<and> turn (heap (snd s) r) = 1"
proof -
  have key: "truthy (GEMINI_API_KEY env_cat)" by code_simp
  have gen: "\<forall>q. generateContentStream env_cat q = cat_upstream (ascii ''AAAA'')"
    by (simp add: env_cat_def)
  have d: "ascii ''AAAA'' \<noteq> []" by (simp add: ascii_def)
  from cat_scenario [OF key gen d] show ?thesis .
qed

text \<open>
  C4 as stated fails when the artifact is written, as it normally is: five events
  are sent, not four.
\<close>

theorem cat_scenario_counterexample:
  "written (fst (streamTurn env_cat sid0 asked)) =
     [Status (ascii ''Generating...''), TextDelta (ascii ''Here's a cat''),
      ImageEvent (ascii ''image/png'') (ascii ''AAAA''),
      Status (ascii ''Saved generated image: session-s1-assistant-1-0.png''), Done]
   \<and> written (fst (streamTurn env_cat sid0 asked)) \<noteq>
     [Status (ascii ''Generating...''), TextDelta (ascii ''Here's a cat''),
      ImageEvent (ascii ''image/png'') (ascii ''AAAA''), Done]"
  by code_simp

subsection \<open>A client that goes away\<close>

















end
